theory Spec2Isabelle
  imports Main "HOL-Library.Sublist"
begin

section \<open>Beam report generator (Main.py)\<close>

text \<open>
  The program is one function, \<^verbatim>\<open>generate_beam_report\<close>, and two helpers,
  \<^verbatim>\<open>generate_sfd_plot\<close> and \<^verbatim>\<open>generate_bmd_plot\<close>. It reads a spreadsheet into a
  pandas DataFrame, appends typesetting instructions to a pylatex document and asks
  pylatex to compile it. The embedding below follows the source line by line; the three
  phases of the function are named as the specification names them:
  \<^item> \<open>load_table\<close> is line 9,
  \<^item> \<open>build_document\<close> is lines 12 to 85,
  \<^item> \<open>render\<close> is line 89.
  The \<^verbatim>\<open>print\<close> calls (lines 8, 88, 90) are not modelled.
\<close>

subsection \<open>Cell values and how Python formats them\<close>

text \<open>
  A cell of the table is a Python number or a string. Floating-point numbers are kept
  abstract (the type variable \<open>'f\<close>): their conversion from integers and their two
  formatting functions are parameters of the model, so every result below holds for any
  behaviour of floating-point formatting. Integers and strings are formatted concretely.
  Booleans, dates and other cell types are outside the model.
\<close>

datatype 'f pyval = PyInt int | PyFloat 'f | PyStr string

record 'f float_ops =
  to_float :: "int \<Rightarrow> 'f"
  float_fixed :: "nat \<Rightarrow> 'f \<Rightarrow> string"
  float_str :: "'f \<Rightarrow> string"

text \<open>
  \<open>to_float\<close> is the conversion of an int64 to a float64, \<open>float_fixed n x\<close> is
  \<^verbatim>\<open>format(x, '.nf')\<close> and \<open>float_str x\<close> is \<^verbatim>\<open>format(x, '')\<close>, that is \<^verbatim>\<open>str(x)\<close>.
\<close>

text \<open>
  The exceptions of the program. \<open>ExcelFormatError\<close> stands for what pandas raises on a
  file that is not a workbook; \<open>CalledProcessError\<close> and \<open>CompilerError\<close> are raised by
  pylatex when the compiler fails or is not installed.
\<close>

datatype error =
    FileNotFoundError string
  | ExcelFormatError
  | KeyError string
  | ValueError
  | CalledProcessError
  | CompilerError

definition digit_char :: "nat \<Rightarrow> char" where
  "digit_char d = ''0123456789'' ! d"

fun nat_digits :: "nat \<Rightarrow> string" where
  "nat_digits n =
     (if n < 10 then [digit_char n] else nat_digits (n div 10) @ [digit_char (n mod 10)])"

declare nat_digits.simps [simp del]

definition int_str :: "int \<Rightarrow> string" where
  "int_str i = (if i < 0 then CHR ''-'' # nat_digits (nat (- i)) else nat_digits (nat i))"

definition int_fixed :: "nat \<Rightarrow> int \<Rightarrow> string" where
  "int_fixed n i = int_str i @ (if n = 0 then [] else CHR ''.'' # replicate n (CHR ''0''))"

text \<open>
  \<open>format_fixed ops n v\<close> is the f-string field \<^verbatim>\<open>{v:.nf}\<close>: an integer is printed
  exactly with \<open>n\<close> zero decimals, a string raises ValueError (unknown format code).
  \<open>format_str ops v\<close> is the field \<^verbatim>\<open>{v}\<close>, which never raises.
\<close>

fun format_fixed :: "'f float_ops \<Rightarrow> nat \<Rightarrow> 'f pyval \<Rightarrow> error + string" where
  "format_fixed ops n (PyInt i) = Inr (int_fixed n i)"
| "format_fixed ops n (PyFloat x) = Inr (float_fixed ops n x)"
| "format_fixed ops n (PyStr s) = Inl ValueError"

fun format_str :: "'f float_ops \<Rightarrow> 'f pyval \<Rightarrow> string" where
  "format_str ops (PyInt i) = int_str i"
| "format_str ops (PyFloat x) = float_str ops x"
| "format_str ops (PyStr s) = s"


subsection \<open>The DataFrame\<close>

text \<open>
  A DataFrame is a list of named columns, each with one dtype: int64, float64 or object
  (any Python values). \<^verbatim>\<open>df.iterrows()\<close> yields each row as a Series, which has a
  single dtype for the whole row: the common dtype of all columns of the frame. A frame
  with integer and floating-point columns therefore yields its integers converted to
  floats (pandas documents this: iterrows "does not preserve dtypes across the rows").
\<close>

datatype 'f column = IntCol "int list" | FloatCol "'f list" | ObjCol "'f pyval list"

type_synonym 'f frame = "(string \<times> 'f column) list"

type_synonym 'f series = "(string \<times> 'f pyval) list"

datatype dtype = Int64 | Float64 | Object

fun col_dtype :: "'f column \<Rightarrow> dtype" where
  "col_dtype (IntCol xs) = Int64"
| "col_dtype (FloatCol xs) = Float64"
| "col_dtype (ObjCol xs) = Object"

fun col_len :: "'f column \<Rightarrow> nat" where
  "col_len (IntCol xs) = length xs"
| "col_len (FloatCol xs) = length xs"
| "col_len (ObjCol xs) = length xs"

definition nrows :: "'f frame \<Rightarrow> nat" where
  "nrows df = (case df of [] \<Rightarrow> 0 | nc # _ \<Rightarrow> col_len (snd nc))"

definition wf_frame :: "'f frame \<Rightarrow> bool" where
  "wf_frame df \<longleftrightarrow> distinct (map fst df) \<and> list_all (\<lambda>nc. col_len (snd nc) = nrows df) df"

definition common_dtype :: "'f frame \<Rightarrow> dtype" where
  "common_dtype df =
     (if list_all (\<lambda>nc. col_dtype (snd nc) = Int64) df then Int64
      else if list_all (\<lambda>nc. col_dtype (snd nc) \<noteq> Object) df then Float64
      else Object)"

fun col_values :: "'f float_ops \<Rightarrow> dtype \<Rightarrow> 'f column \<Rightarrow> 'f pyval list" where
  "col_values ops dt (IntCol xs) =
     (if dt = Float64 then map (\<lambda>x. PyFloat (to_float ops x)) xs else map PyInt xs)"
| "col_values ops dt (FloatCol xs) = map PyFloat xs"
| "col_values ops dt (ObjCol xs) = xs"

definition row_at :: "'f float_ops \<Rightarrow> 'f frame \<Rightarrow> nat \<Rightarrow> 'f series" where
  "row_at ops df i = map (\<lambda>nc. (fst nc, col_values ops (common_dtype df) (snd nc) ! i)) df"

definition iterrows :: "'f float_ops \<Rightarrow> 'f frame \<Rightarrow> 'f series list" where
  "iterrows ops df = map (row_at ops df) [0..<nrows df]"

text \<open>The Python slice \<^verbatim>\<open>[::2]\<close> on a list, and \<^verbatim>\<open>df.iloc[::2]\<close> on a frame.\<close>

fun stride2 :: "'a list \<Rightarrow> 'a list" where
  "stride2 [] = []"
| "stride2 [x] = [x]"
| "stride2 (x # y # zs) = x # stride2 zs"

fun col_stride2 :: "'f column \<Rightarrow> 'f column" where
  "col_stride2 (IntCol xs) = IntCol (stride2 xs)"
| "col_stride2 (FloatCol xs) = FloatCol (stride2 xs)"
| "col_stride2 (ObjCol xs) = ObjCol (stride2 xs)"

definition iloc_stride2 :: "'f frame \<Rightarrow> 'f frame" where
  "iloc_stride2 df = map (\<lambda>nc. (fst nc, col_stride2 (snd nc))) df"

text \<open>\<^verbatim>\<open>row['name']\<close>: a KeyError when the Series has no such label.\<close>

definition getitem :: "'f series \<Rightarrow> string \<Rightarrow> error + 'f pyval" where
  "getitem row k = (case map_of row k of None \<Rightarrow> Inl (KeyError k) | Some v \<Rightarrow> Inr v)"

definition bindE :: "error + 'a \<Rightarrow> ('a \<Rightarrow> error + 'b) \<Rightarrow> error + 'b" where
  "bindE m f = (case m of Inl e \<Rightarrow> Inl e | Inr x \<Rightarrow> f x)"

fun mapE :: "('a \<Rightarrow> error + 'b) \<Rightarrow> 'a list \<Rightarrow> error + 'b list" where
  "mapE f [] = Inr []"
| "mapE f (x # xs) = bindE (f x) (\<lambda>y. bindE (mapE f xs) (\<lambda>ys. Inr (y # ys)))"

subsection \<open>The filesystem\<close>

text \<open>
  The program reads \<^verbatim>\<open>beam_data.xlsx\<close>, tests whether \<^verbatim>\<open>beam.png\<close> exists and
  writes \<^verbatim>\<open>Apoorv_Goyal_Memorandum.tex\<close> and \<^verbatim>\<open>.pdf\<close>. A file is a workbook (given
  by the frame pandas reads from it) or any other content.
\<close>

datatype 'f content = Workbook "'f frame" | Blob string

type_synonym 'f filesystem = "string \<rightharpoonup> 'f content"

definition path_exists :: "'f filesystem \<Rightarrow> string \<Rightarrow> bool" where
  "path_exists fs p \<longleftrightarrow> fs p \<noteq> None"

text \<open>\<^verbatim>\<open>pd.read_excel(path)\<close>.\<close>

definition read_excel :: "'f filesystem \<Rightarrow> string \<Rightarrow> error + 'f frame" where
  "read_excel fs p =
     (case fs p of
        None \<Rightarrow> Inl (FileNotFoundError p)
      | Some (Workbook df) \<Rightarrow> Inr df
      | Some (Blob b) \<Rightarrow> Inl ExcelFormatError)"

text \<open>Line 9.\<close>

definition load_table :: "'f filesystem \<Rightarrow> error + 'f frame" where
  "load_table fs = read_excel fs ''beam_data.xlsx''"

subsection \<open>The pylatex document\<close>

text \<open>
  The document is the tree of objects the program appends: raw markup (\<^verbatim>\<open>NoEscape\<close>),
  plain text (escaped by pylatex when it serialises), sections, subsections, a figure
  and a table. Inside \<^verbatim>\<open>with doc.create(child):\<close> pylatex redirects \<^verbatim>\<open>doc.append\<close>
  to the child, and appends the child to its parent when the block ends.
\<close>

datatype cell = RawCell string | TextCell string

datatype table_item = Row "cell list" | HLine

datatype fig_item = Picture string string | Caption string

datatype node =
    Raw string
  | Text string
  | Section string "node list"
  | Subsection string "node list"
  | Figure string "fig_item list"
  | Tabular string string "table_item list"

record document =
  documentclass :: string
  document_options :: "string list"
  packages :: "(string \<times> string list) list"
  preamble :: "string list"
  body :: "node list"

text \<open>The backslash cannot be written inside a string literal.\<close>

definition bs :: char where
  "bs = CHR 0x5C"

text \<open>Lines 15 to 21.\<close>

definition report_packages :: "(string \<times> string list) list" where
  "report_packages =
     [(''tgadventor'', []), (''tcolorbox'', []), (''xcolor'', []), (''tikz'', []),
      (''pgfplots'', []), (''geometry'', [''margin=0.75in'']), (''fancyhdr'', [])]"

text \<open>Lines 24 to 27, then lines 62 to 65: all appended to the one preamble list.\<close>

definition report_preamble :: "string list" where
  "report_preamble =
     [bs # ''definecolor{slate}{HTML}{273746}'',
      bs # ''definecolor{accent}{HTML}{2E86C1}'',
      bs # ''renewcommand{'' @ bs # ''familydefault}{'' @ bs # ''sfdefault}'',
      bs # ''pgfplotsset{compat=1.18}'',
      bs # ''pagestyle{fancy}'',
      bs # ''fancyhf{}'',
      bs # ''lfoot{'' @ bs # ''small '' @ bs # ''color{gray} Apoorv Goyal | 23BCG10116}'',
      bs # ''rfoot{'' @ bs # ''small Page '' @ bs # ''thepage}'']"

text \<open>Lines 37 to 44: the box of project identifiers, one raw string.\<close>

definition cover_box :: string where
  "cover_box =
     ''\<newline>'' @
     ''    '' @ bs # ''begin{tcolorbox}[colframe=slate, colback=white, title=Project Identifiers]\<newline>'' @
     ''    '' @ bs # ''textbf{Lead Engineer:} Apoorv Goyal '' @ bs # bs # ''\<newline>'' @
     ''    '' @ bs # ''textbf{Registration ID:} 23BCG10116 '' @ bs # bs # ''\<newline>'' @
     ''    '' @ bs # ''textbf{Subject:} Simply Supported Beam - 12m Span Analysis '' @ bs # bs # ''\<newline>'' @
     ''    '' @ bs # ''textbf{Date of Issue:} '' @ bs # ''today\<newline>'' @
     ''    '' @ bs # ''end{tcolorbox}\<newline>'' @
     ''    ''"

text \<open>Lines 30 to 46.\<close>

definition cover_block :: "node list" where
  "cover_block =
     [Raw (bs # ''begin{center}''),
      Raw (''{'' @ bs # ''Huge '' @ bs # ''textbf{'' @ bs # ''color{slate}TECHNICAL MEMORANDUM} '' @ bs # ''par}''),
      Raw (bs # ''vspace{0.5cm}''),
      Raw (''{'' @ bs # ''large '' @ bs # ''textit{Structural Analysis of Flexural Members}} '' @ bs # ''par''),
      Raw (bs # ''vspace{0.8cm}''),
      Raw cover_box,
      Raw (bs # ''end{center}''),
      Raw (bs # ''vspace{0.5cm}'')]"

text \<open>
  Lines 53 to 56: the figure. The image is added only when \<^verbatim>\<open>os.path.exists('beam.png')\<close>;
  the caption always.
\<close>

definition beam_figure :: "'f filesystem \<Rightarrow> node" where
  "beam_figure fs =
     Figure ''h!''
       ((if path_exists fs ''beam.png''
         then [Picture ''beam.png'' (''0.6'' @ bs # ''textwidth'')] else [])
        @ [Caption ''Analytical Free Body Diagram.''])"

text \<open>Lines 51 to 56.\<close>

definition configuration_subsection :: "'f filesystem \<Rightarrow> node" where
  "configuration_subsection fs =
     Subsection ''Configuration Modeling''
       [Text (''The beam is modeled with ideal pinned-roller boundary conditions. '' @
              ''The geometry and loading path are visualized in the figure below:''),
        beam_figure fs]"

text \<open>Lines 48 to 56.\<close>

definition scope_section :: "'f filesystem \<Rightarrow> node" where
  "scope_section fs =
     Section ''Project Scope''
       [Text (''This memorandum presents the calculated internal force distribution for a '' @
              ''primary structural element. The analysis focuses on deriving the Shear Force '' @
              ''Diagram (SFD) and Bending Moment Diagram (BMD) under static load conditions.''),
        configuration_subsection fs]"

subsection \<open>The summary table (lines 67 to 76)\<close>

text \<open>
  Line 76: the three f-string fields of one row, evaluated left to right; each is a
  lookup in the row, then the format.
\<close>

definition table_row :: "'f float_ops \<Rightarrow> 'f series \<Rightarrow> error + table_item" where
  "table_row ops row =
     bindE (getitem row ''X'') (\<lambda>x. bindE (format_fixed ops 2 x) (\<lambda>a.
     bindE (getitem row ''Shear force'') (\<lambda>v. bindE (format_fixed ops 1 v) (\<lambda>b.
     bindE (getitem row ''Bending Moment'') (\<lambda>m. bindE (format_fixed ops 1 m) (\<lambda>c.
       Inr (Row [TextCell a, TextCell b, TextCell c])))))))"

text \<open>Line 73.\<close>

definition header_row :: table_item where
  "header_row =
     Row [RawCell (bs # ''textbf{Point (m)}''), RawCell (bs # ''textbf{Shear (kN)}''),
          RawCell (bs # ''textbf{Moment (kNm)}'')]"

text \<open>Lines 75 and 76: the loop over \<^verbatim>\<open>df.iloc[::2].iterrows()\<close>.\<close>

definition data_rows :: "'f float_ops \<Rightarrow> 'f frame \<Rightarrow> error + table_item list" where
  "data_rows ops df = mapE (table_row ops) (iterrows ops (iloc_stride2 df))"

text \<open>Lines 72 to 76.\<close>

definition summary_table :: "'f float_ops \<Rightarrow> 'f frame \<Rightarrow> error + node" where
  "summary_table ops df =
     bindE (data_rows ops df)
       (\<lambda>rows. Inr (Tabular ''p{3cm} p{3cm} p{3cm}'' ''1.4'' (header_row # HLine # rows)))"

text \<open>Lines 67 to 76.\<close>

definition matrix_section :: "'f float_ops \<Rightarrow> 'f frame \<Rightarrow> error + node" where
  "matrix_section ops df =
     bindE (summary_table ops df)
       (\<lambda>t. Inr (Section ''Numerical Computation Matrix''
          [Text ''Sampled data points extracted from the finite element simulation:'',
           Raw (bs # ''vspace{0.3cm}''),
           t]))"

subsection \<open>The two plots (lines 92 to 118)\<close>

text \<open>
  Lines 93 and 107: the list comprehension gives one string per row of
  \<^verbatim>\<open>df.iterrows()\<close>; \<^verbatim>\<open>"".join\<close> concatenates them.
\<close>

definition plot_point :: "'f float_ops \<Rightarrow> string \<Rightarrow> 'f series \<Rightarrow> error + string" where
  "plot_point ops col r =
     bindE (getitem r ''X'') (\<lambda>x.
     bindE (getitem r col) (\<lambda>v.
       Inr (''('' @ format_str ops x @ '', '' @ format_str ops v @ '') '')))"

definition sfd_points :: "'f float_ops \<Rightarrow> 'f frame \<Rightarrow> error + string list" where
  "sfd_points ops df = mapE (plot_point ops ''Shear force'') (iterrows ops df)"

definition bmd_points :: "'f float_ops \<Rightarrow> 'f frame \<Rightarrow> error + string list" where
  "bmd_points ops df = mapE (plot_point ops ''Bending Moment'') (iterrows ops df)"

definition sfd_head :: string where
  "sfd_head =
     ''\<newline>'' @
     ''    '' @ bs # ''begin{center}\<newline>'' @
     ''    '' @ bs # ''begin{tikzpicture}\<newline>'' @
     ''    '' @ bs # ''begin{axis}[width=11cm, height=5cm, axis x line=center, axis y line=left, \<newline>'' @
     ''        xlabel=$x$, ylabel=$V$, grid=major, grid style={dotted, slate!30},\<newline>'' @
     ''        title='' @ bs # ''textbf{V-Diagram}, title style={color=accent}]\<newline>'' @
     ''    '' @ bs # ''addplot[thick, accent, fill=accent, fill opacity=0.1] coordinates {''"

definition bmd_head :: string where
  "bmd_head =
     ''\<newline>'' @
     ''    '' @ bs # ''begin{center}\<newline>'' @
     ''    '' @ bs # ''begin{tikzpicture}\<newline>'' @
     ''    '' @ bs # ''begin{axis}[width=11cm, height=5cm, axis x line=bottom, axis y line=left, \<newline>'' @
     ''        xlabel=$x$, ylabel=$M$, grid=major, grid style={dotted, slate!30},\<newline>'' @
     ''        title='' @ bs # ''textbf{M-Diagram}, title style={color=slate}]\<newline>'' @
     ''    '' @ bs # ''addplot[thick, slate, fill=slate, fill opacity=0.15] coordinates {''"

definition plot_tail :: string where
  "plot_tail =
     ''} '' @ bs # ''closedcycle;\<newline>'' @
     ''    '' @ bs # ''end{axis}\<newline>'' @
     ''    '' @ bs # ''end{tikzpicture}\<newline>'' @
     ''    '' @ bs # ''end{center}\<newline>'' @
     ''    ''"

text \<open>The variable \<^verbatim>\<open>coords\<close> of lines 93 and 107.\<close>

definition sfd_coords :: "'f float_ops \<Rightarrow> 'f frame \<Rightarrow> error + string" where
  "sfd_coords ops df = bindE (sfd_points ops df) (\<lambda>ps. Inr (concat ps))"

definition bmd_coords :: "'f float_ops \<Rightarrow> 'f frame \<Rightarrow> error + string" where
  "bmd_coords ops df = bindE (bmd_points ops df) (\<lambda>ps. Inr (concat ps))"

definition generate_sfd_plot :: "'f float_ops \<Rightarrow> 'f frame \<Rightarrow> error + string" where
  "generate_sfd_plot ops df =
     bindE (sfd_coords ops df) (\<lambda>coords. Inr (sfd_head @ coords @ plot_tail))"

definition generate_bmd_plot :: "'f float_ops \<Rightarrow> 'f frame \<Rightarrow> error + string" where
  "generate_bmd_plot ops df =
     bindE (bmd_coords ops df) (\<lambda>coords. Inr (bmd_head @ coords @ plot_tail))"

text \<open>Lines 78 to 85.\<close>

definition envelopes_section :: "'f float_ops \<Rightarrow> 'f frame \<Rightarrow> error + node" where
  "envelopes_section ops df =
     bindE (generate_sfd_plot ops df) (\<lambda>sfd.
     bindE (generate_bmd_plot ops df) (\<lambda>bmd.
       Inr (Section ''Internal Force Envelopes''
         [Text ''The graphical plots below describe the mechanical response of the beam.'',
          Subsection ''Shear Force Variance'' [Raw sfd],
          Subsection ''Bending Moment Variance'' [Raw bmd]])))"

subsection \<open>Building the document (lines 12 to 85)\<close>

text \<open>
  An exception anywhere aborts the function, so the document exists only when every
  step succeeded. The only reads of the environment are the frame and the test for
  \<^verbatim>\<open>beam.png\<close>.
\<close>

definition build_document :: "'f float_ops \<Rightarrow> 'f filesystem \<Rightarrow> 'f frame \<Rightarrow> error + document" where
  "build_document ops fs df =
     bindE (matrix_section ops df) (\<lambda>matrix.
     bindE (envelopes_section ops df) (\<lambda>envelopes.
       Inr \<lparr>documentclass = ''article'',
            document_options = [''a4paper'', ''11pt''],
            packages = report_packages,
            preamble = report_preamble,
            body = cover_block @ [scope_section fs, Raw (bs # ''newpage''), matrix, envelopes]\<rparr>))"

subsection \<open>Rendering (line 89)\<close>

text \<open>
  \<^verbatim>\<open>doc.generate_pdf(filepath, clean_tex, compiler)\<close> of pylatex writes the serialised
  document to \<^verbatim>\<open>filepath.tex\<close>, runs the compiler on it, and removes the \<^verbatim>\<open>.tex\<close>
  file after a successful run when \<^verbatim>\<open>clean_tex\<close> is set. A failing compiler raises
  CalledProcessError, a compiler that is not installed raises CompilerError; neither
  path removes anything. The serialiser \<open>dumps\<close> and the compiler are parameters. The
  auxiliary and log files of the compiler are not modelled.
\<close>

datatype compile_result = Compiled string | CompileFailed | NoCompiler

definition generate_pdf ::
  "(document \<Rightarrow> string) \<Rightarrow> ('f filesystem \<Rightarrow> string \<Rightarrow> compile_result) \<Rightarrow>
   string \<Rightarrow> bool \<Rightarrow> 'f filesystem \<Rightarrow> document \<Rightarrow> (error + unit) \<times> 'f filesystem" where
  "generate_pdf dumps compiler filepath clean_tex fs doc =
     (let fs1 = fs(filepath @ ''.tex'' \<mapsto> Blob (dumps doc)) in
      case compiler fs1 (filepath @ ''.tex'') of
        Compiled pdf \<Rightarrow>
          (let fs2 = fs1(filepath @ ''.pdf'' \<mapsto> Blob pdf)
           in (Inr (), if clean_tex then fs2(filepath @ ''.tex'' := None) else fs2))
      | CompileFailed \<Rightarrow> (Inl CalledProcessError, fs1)
      | NoCompiler \<Rightarrow> (Inl CompilerError, fs1))"

definition render ::
  "(document \<Rightarrow> string) \<Rightarrow> ('f filesystem \<Rightarrow> string \<Rightarrow> compile_result) \<Rightarrow>
   'f filesystem \<Rightarrow> document \<Rightarrow> (error + unit) \<times> 'f filesystem" where
  "render dumps compiler fs doc =
     generate_pdf dumps compiler ''Apoorv_Goyal_Memorandum'' False fs doc"

subsection \<open>The whole program (lines 7 to 90)\<close>

definition generate_beam_report ::
  "'f float_ops \<Rightarrow> (document \<Rightarrow> string) \<Rightarrow> ('f filesystem \<Rightarrow> string \<Rightarrow> compile_result) \<Rightarrow>
   'f filesystem \<Rightarrow> (error + unit) \<times> 'f filesystem" where
  "generate_beam_report ops dumps compiler fs =
     (case load_table fs of
        Inl e \<Rightarrow> (Inl e, fs)
      | Inr df \<Rightarrow>
          (case build_document ops fs df of
             Inl e \<Rightarrow> (Inl e, fs)
           | Inr doc \<Rightarrow> render dumps compiler fs doc))"


subsection \<open>Notions used to state the properties\<close>

text \<open>
  The specification names three kinds of error. The exceptions the program can raise
  fall under them as follows.
\<close>

datatype error_kind = InputNotFound | InputFormatError | RenderError

fun kind_of :: "error \<Rightarrow> error_kind" where
  "kind_of (FileNotFoundError p) = InputNotFound"
| "kind_of ExcelFormatError = InputFormatError"
| "kind_of (KeyError k) = InputFormatError"
| "kind_of ValueError = InputFormatError"
| "kind_of CalledProcessError = RenderError"
| "kind_of CompilerError = RenderError"

text \<open>
  \<open>cells ops df c\<close> is column \<open>c\<close> as the rows of \<^verbatim>\<open>df.iterrows()\<close> show it: its
  values in the common dtype of the frame, or \<open>None\<close> when the frame has no such column.
\<close>

definition cells :: "'f float_ops \<Rightarrow> 'f frame \<Rightarrow> string \<Rightarrow> 'f pyval list option" where
  "cells ops df c = map_option (col_values ops (common_dtype df)) (map_of df c)"

text \<open>
  A valid input table has the three columns the program reads, each holding numbers
  only.
\<close>

definition required_columns :: "string list" where
  "required_columns = [''X'', ''Shear force'', ''Bending Moment'']"



text \<open>The tables of a document: the items of every \<open>Tabular\<close> node, in order.\<close>

fun node_tables :: "node \<Rightarrow> table_item list list" where
  "node_tables (Raw s) = []"
| "node_tables (Text s) = []"
| "node_tables (Section t ns) = concat (map node_tables ns)"
| "node_tables (Subsection t ns) = concat (map node_tables ns)"
| "node_tables (Figure p items) = []"
| "node_tables (Tabular spec h items) = [items]"

definition doc_tables :: "document \<Rightarrow> table_item list list" where
  "doc_tables doc = concat (map node_tables (body doc))"

text \<open>
  The metadata struct of the specification. The program has no such argument: the four
  values are written inside the string literal of lines 37 to 44.
\<close>

record metadata =
  md_author :: string
  md_id :: string
  md_subject :: string
  md_date :: string

definition cover_mentions :: "string \<Rightarrow> bool" where
  "cover_mentions s \<longleftrightarrow>
     list_ex (\<lambda>n. case n of Raw t \<Rightarrow> sublist s t | _ \<Rightarrow> False) cover_block"

definition cover_shows :: "metadata \<Rightarrow> bool" where
  "cover_shows md \<longleftrightarrow>
     cover_mentions (md_author md) \<and> cover_mentions (md_id md) \<and>
     cover_mentions (md_subject md) \<and> cover_mentions (md_date md)"

text \<open>The markup of a build: the serialised document, or the error.\<close>

definition markup :: "(document \<Rightarrow> string) \<Rightarrow> error + document \<Rightarrow> error + string" where
  "markup dumps r = (case r of Inl e \<Rightarrow> Inl e | Inr doc \<Rightarrow> Inr (dumps doc))"

subsection \<open>Concrete inputs\<close>

text \<open>
  For evaluation, floating-point numbers are restricted to whole numbers and NaN:
  \<open>Some n\<close> stands for the float \<open>n.0\<close> and \<open>None\<close> for NaN (an empty cell). On these
  Python prints \<^verbatim>\<open>str(6.0) = '6.0'\<close>, \<^verbatim>\<open>format(6.0, '.2f') = '6.00'\<close> and \<^verbatim>\<open>'nan'\<close>.
\<close>

definition whole_ops :: "int option float_ops" where
  "whole_ops =
     \<lparr>to_float = Some,
      float_fixed = (\<lambda>n x. case x of None \<Rightarrow> ''nan'' | Some i \<Rightarrow> int_fixed n i),
      float_str = (\<lambda>x. case x of None \<Rightarrow> ''nan'' | Some i \<Rightarrow> int_str i @ ''.0'')\<rparr>"

text \<open>The table of the end-to-end example: rows (0, 0, 0), (6, 10, -5), (12, 0, 0).\<close>

definition example_frame :: "int option frame" where
  "example_frame =
     [(''X'', IntCol [0, 6, 12]),
      (''Shear force'', IntCol [0, 10, 0]),
      (''Bending Moment'', IntCol [0, - 5, 0])]"

text \<open>The same three columns, and a fourth with an empty cell in its second row.\<close>

definition example_frame_extra :: "int option frame" where
  "example_frame_extra = example_frame @ [(''Deflection'', FloatCol [Some 0, None, Some 0])]"

text \<open>A table without the shear column, with one row and with none.\<close>

definition frame_no_shear :: "int option frame" where
  "frame_no_shear = [(''X'', IntCol [0]), (''Bending Moment'', IntCol [0])]"

definition frame_no_shear_empty :: "int option frame" where
  "frame_no_shear_empty = [(''X'', ObjCol []), (''Bending Moment'', ObjCol [])]"

text \<open>A table whose shear column holds a word in its second row.\<close>

definition frame_text_cell :: "int option frame" where
  "frame_text_cell =
     [(''X'', IntCol [0, 6, 12]),
      (''Shear force'', ObjCol [PyInt 0, PyStr ''pin'', PyInt 0]),
      (''Bending Moment'', IntCol [0, - 5, 0])]"

definition fs_with :: "'f frame \<Rightarrow> bool \<Rightarrow> 'f filesystem" where
  "fs_with df img =
     (if img
      then [''beam_data.xlsx'' \<mapsto> Workbook df, ''beam.png'' \<mapsto> Blob ''png'']
      else [''beam_data.xlsx'' \<mapsto> Workbook df])"

definition failing_compiler :: "'f filesystem \<Rightarrow> string \<Rightarrow> compile_result" where
  "failing_compiler fs p = CompileFailed"

definition working_compiler :: "'f filesystem \<Rightarrow> string \<Rightarrow> compile_result" where
  "working_compiler fs p = (case fs p of None \<Rightarrow> CompileFailed | Some c \<Rightarrow> Compiled ''pdf'')"

definition sample_dumps :: "document \<Rightarrow> string" where
  "sample_dumps doc = concat (preamble doc)"


section \<open>Properties\<close>

subsection \<open>Auxiliary facts: slices, the error monad, rows\<close>

lemma length_stride2: "length (stride2 xs) = (length xs + 1) div 2"
  by (induction xs rule: stride2.induct) simp_all

lemma nth_stride2: "k < length (stride2 xs) \<Longrightarrow> stride2 xs ! k = xs ! (2 * k)"
proof (induction xs arbitrary: k rule: stride2.induct)
  case 1
  then show ?case by simp
next
  case (2 x)
  then show ?case by simp
next
  case (3 x y zs)
  then show ?case by (cases k) simp_all
qed

lemma stride2_map: "stride2 (map f xs) = map f (stride2 xs)"
  by (induction xs rule: stride2.induct) simp_all

lemma stride2_eq_map_nth: "stride2 xs = map (\<lambda>k. xs ! (2 * k)) [0..<(length xs + 1) div 2]"
  by (rule nth_equalityI) (simp_all add: length_stride2 nth_stride2)

lemma bindE_Inr [simp]: "bindE (Inr x) f = f x"
  by (simp add: bindE_def)

lemma bindE_Inl [simp]: "bindE (Inl e) f = Inl e"
  by (simp add: bindE_def)


lemma col_dtype_stride2 [simp]: "col_dtype (col_stride2 c) = col_dtype c"
  by (cases c) simp_all

lemma col_len_stride2 [simp]: "col_len (col_stride2 c) = (col_len c + 1) div 2"
  by (cases c) (simp_all add: length_stride2)

lemma col_values_stride2: "col_values ops dt (col_stride2 c) = stride2 (col_values ops dt c)"
  by (cases c) (simp_all add: stride2_map)

lemma length_col_values [simp]: "length (col_values ops dt c) = col_len c"
  by (cases c) simp_all

lemma common_dtype_iloc [simp]: "common_dtype (iloc_stride2 df) = common_dtype df"
  by (simp add: common_dtype_def iloc_stride2_def list_all_iff)

lemma nrows_iloc [simp]: "nrows (iloc_stride2 df) = (nrows df + 1) div 2"
  by (cases df) (simp_all add: nrows_def iloc_stride2_def)

lemma row_at_iloc:
  assumes "wf_frame df" and "k < (nrows df + 1) div 2"
  shows "row_at ops (iloc_stride2 df) k = row_at ops df (2 * k)"
proof -
  have "col_values ops dt (col_stride2 c) ! k = col_values ops dt c ! (2 * k)"
    if "(n, c) \<in> set df" for n c dt
  proof -
    from that assms(1) have "col_len c = nrows df"
      by (auto simp: wf_frame_def list_all_iff)
    with assms(2) show ?thesis
      by (simp add: col_values_stride2 nth_stride2 length_stride2)
  qed
  then show ?thesis
    unfolding row_at_def common_dtype_iloc by (auto simp: iloc_stride2_def)
qed

lemma iterrows_iloc:
  assumes "wf_frame df"
  shows "iterrows ops (iloc_stride2 df) = stride2 (iterrows ops df)"
proof -
  have "iterrows ops (iloc_stride2 df) = map (\<lambda>k. row_at ops df (2 * k)) [0..<(nrows df + 1) div 2]"
    using assms by (simp add: iterrows_def row_at_iloc)
  also have "\<dots> = stride2 (iterrows ops df)"
    by (simp add: stride2_eq_map_nth iterrows_def)
  finally show ?thesis .
qed

lemma map_of_row_at: "map_of (row_at ops df i) c = map_option (\<lambda>vs. vs ! i) (cells ops df c)"
proof -
  have "map_of (map (\<lambda>nc. (fst nc, g (snd nc))) xs) c = map_option g (map_of xs c)"
    for g :: "'a column \<Rightarrow> 'a pyval" and xs
    by (induction xs) simp_all
  then show ?thesis
    by (simp add: row_at_def cells_def option.map_comp comp_def)
qed






lemma mapE_map_list: "mapE f (map g xs) = mapE (\<lambda>x. f (g x)) xs"
  by (induction xs) simp_all



lemma iterrows_iloc_rows:
  assumes "wf_frame df"
  shows "iterrows ops (iloc_stride2 df) = map (\<lambda>k. row_at ops df (2 * k)) [0..<(nrows df + 1) div 2]"
  using assms by (simp add: iterrows_def row_at_iloc)


lemma doc_tables_build:
  assumes "data_rows ops df = Inr rows" and "sfd_coords ops df = Inr s" and "bmd_coords ops df = Inr b"
  shows "\<exists>doc. build_document ops fs df = Inr doc \<and> doc_tables doc = [header_row # HLine # rows]"
  using assms
  by (simp add: build_document_def matrix_section_def summary_table_def envelopes_section_def
      generate_sfd_plot_def generate_bmd_plot_def doc_tables_def cover_block_def scope_section_def
      configuration_subsection_def beam_figure_def)








lemma build_document_Inl:
  "build_document ops fs df = Inl e \<longleftrightarrow>
     data_rows ops df = Inl e \<or>
     (\<exists>rows. data_rows ops df = Inr rows) \<and>
       (sfd_points ops df = Inl e \<or> (\<exists>ps. sfd_points ops df = Inr ps) \<and> bmd_points ops df = Inl e)"
  unfolding build_document_def matrix_section_def summary_table_def envelopes_section_def
    generate_sfd_plot_def generate_bmd_plot_def sfd_coords_def bmd_coords_def bindE_def
  by (auto split: sum.splits)






text \<open>The end-to-end example, evaluated.\<close>

lemma example_data_rows:
  "data_rows ops example_frame =
     Inr [Row [TextCell ''0.00'', TextCell ''0.0'', TextCell ''0.0''],
          Row [TextCell ''12.00'', TextCell ''0.0'', TextCell ''0.0'']]"
  by code_simp

lemma example_sfd_coords: "sfd_coords ops example_frame = Inr ''(0, 0) (6, 10) (12, 0) ''"
  by code_simp

lemma example_bmd_coords: "bmd_coords ops example_frame = Inr ''(0, 0) (6, -5) (12, 0) ''"
  by code_simp

lemma example_build: "\<exists>doc. build_document ops fs example_frame = Inr doc"
  using doc_tables_build [OF example_data_rows example_sfd_coords example_bmd_coords, of ops fs]
  by blast

lemma build_document_Inl_fs:
  "build_document ops fs df = Inl e \<longleftrightarrow> build_document ops fs' df = Inl e"
  by (simp add: build_document_Inl)

lemma build_document_body:
  assumes "build_document ops fs df = Inr doc"
  shows "\<exists>matrix envelopes.
           body doc = cover_block @ [scope_section fs, Raw (bs # ''newpage''), matrix, envelopes]"
  using assms unfolding build_document_def bindE_def
  by (auto split: sum.splits)

lemma build_document_fs_cong:
  assumes "path_exists fs ''beam.png'' = path_exists fs' ''beam.png''"
  shows "build_document ops fs df = build_document ops fs' df"
  using assms
  by (simp add: build_document_def scope_section_def configuration_subsection_def beam_figure_def)

lemma render_fs_other:
  assumes "p \<noteq> ''Apoorv_Goyal_Memorandum.tex''" and "p \<noteq> ''Apoorv_Goyal_Memorandum.pdf''"
  shows "snd (render dumps compiler fs doc) p = fs p"
  using assms by (simp add: render_def generate_pdf_def Let_def split: compile_result.splits)

lemma generate_beam_report_fs_other:
  assumes "p \<noteq> ''Apoorv_Goyal_Memorandum.tex''" and "p \<noteq> ''Apoorv_Goyal_Memorandum.pdf''"
  shows "snd (generate_beam_report ops dumps compiler fs) p = fs p"
  using assms by (simp add: generate_beam_report_def render_fs_other split: sum.splits)

lemma getitem_row_at:
  "getitem (row_at ops df i) c =
     (case cells ops df c of None \<Rightarrow> Inl (KeyError c) | Some vs \<Rightarrow> Inr (vs ! i))"
  by (simp add: getitem_def map_of_row_at split: option.splits)

lemma mapE_cong: "(\<And>x. x \<in> set xs \<Longrightarrow> f x = g x) \<Longrightarrow> mapE f xs = mapE g xs"
  by (induction xs) simp_all

lemma table_row_agree:
  assumes "\<forall>c\<in>set required_columns. cells ops df c = cells ops df' c"
  shows "table_row ops (row_at ops df i) = table_row ops (row_at ops df' i)"
  using assms by (simp add: table_row_def getitem_row_at required_columns_def)

lemma plot_point_agree:
  assumes "\<forall>c\<in>set required_columns. cells ops df c = cells ops df' c"
    and "c \<in> set required_columns"
  shows "plot_point ops c (row_at ops df i) = plot_point ops c (row_at ops df' i)"
proof -
  from assms(1) have "cells ops df ''X'' = cells ops df' ''X''"
    by (simp add: required_columns_def)
  moreover from assms have "cells ops df c = cells ops df' c"
    by blast
  ultimately show ?thesis
    by (simp add: plot_point_def getitem_row_at)
qed

lemma build_document_agree:
  assumes "wf_frame df" and "wf_frame df'" and "nrows df = nrows df'"
    and "\<forall>c\<in>set required_columns. cells ops df c = cells ops df' c"
  shows "build_document ops fs df = build_document ops fs df'"
proof -
  have "data_rows ops df = data_rows ops df'"
    unfolding data_rows_def iterrows_iloc_rows [OF assms(1)] iterrows_iloc_rows [OF assms(2)]
      mapE_map_list assms(3)
    by (rule mapE_cong) (rule table_row_agree [OF assms(4)])
  moreover have "sfd_points ops df = sfd_points ops df'"
    unfolding sfd_points_def iterrows_def mapE_map_list assms(3)
    by (rule mapE_cong) (simp add: plot_point_agree [OF assms(4)] required_columns_def)
  moreover have "bmd_points ops df = bmd_points ops df'"
    unfolding bmd_points_def iterrows_def mapE_map_list assms(3)
    by (rule mapE_cong) (simp add: plot_point_agree [OF assms(4)] required_columns_def)
  ultimately show ?thesis
    by (simp add: build_document_def matrix_section_def summary_table_def envelopes_section_def
        generate_sfd_plot_def generate_bmd_plot_def sfd_coords_def bmd_coords_def)
qed

subsection \<open>The summary table\<close>



lemma cells_stored:
  "map_of df c = Some (FloatCol fs) \<Longrightarrow> cells ops df c = Some (map PyFloat fs)"
  "map_of df c = Some (ObjCol vs) \<Longrightarrow> cells ops df c = Some vs"
  "map_of df c = Some (IntCol ns) \<Longrightarrow> common_dtype df \<noteq> Float64 \<Longrightarrow>
     cells ops df c = Some (map PyInt ns)"
  "map_of df c = Some (IntCol ns) \<Longrightarrow> common_dtype df = Float64 \<Longrightarrow>
     cells ops df c = Some (map (\<lambda>n. PyFloat (to_float ops n)) ns)"
  by (simp_all add: cells_def)

subsection \<open>The plot coordinates\<close>




subsection \<open>Errors of the input\<close>




text \<open>
  Two consequences of the characterisation, evaluated: a table with no rows is built
  without its shear column, and a word in a row that is not sampled raises nothing and
  is printed among the plot coordinates.
\<close>

lemma empty_table_without_column:
  "data_rows whole_ops frame_no_shear_empty = Inr [] \<and>
   sfd_coords whole_ops frame_no_shear_empty = Inr [] \<and>
   bmd_coords whole_ops frame_no_shear_empty = Inr []"
  by code_simp

lemma text_cell_in_unsampled_row:
  "data_rows whole_ops frame_text_cell =
     Inr [Row [TextCell ''0.00'', TextCell ''0.0'', TextCell ''0.0''],
          Row [TextCell ''12.00'', TextCell ''0.0'', TextCell ''0.0'']] \<and>
   sfd_coords whole_ops frame_text_cell = Inr ''(0, 0) (6, pin) (12, 0) ''"
  by code_simp

subsection \<open>The optional diagram image\<close>

text \<open>
  Claim C4. When \<^verbatim>\<open>beam.png\<close> does not exist, the subsection keeps its text and its
  figure, and the figure holds the caption only; when it exists, the figure holds the
  image and the caption. Whether the build raises an error, and which, does not depend
  on the filesystem; when a document is built, the section with this subsection is in it.
\<close>

theorem diagram_image_optional:
  "(\<not> path_exists fs ''beam.png'' \<longrightarrow>
      configuration_subsection fs =
        Subsection ''Configuration Modeling''
          [Text (''The beam is modeled with ideal pinned-roller boundary conditions. '' @
                 ''The geometry and loading path are visualized in the figure below:''),
           Figure ''h!'' [Caption ''Analytical Free Body Diagram.'']]) \<and>
   (path_exists fs ''beam.png'' \<longrightarrow>
      configuration_subsection fs =
        Subsection ''Configuration Modeling''
          [Text (''The beam is modeled with ideal pinned-roller boundary conditions. '' @
                 ''The geometry and loading path are visualized in the figure below:''),
           Figure ''h!'' [Picture ''beam.png'' (''0.6'' @ bs # ''textwidth''),
                          Caption ''Analytical Free Body Diagram.'']]) \<and>
   (build_document ops fs df = Inl e \<longleftrightarrow> build_document ops fs' df = Inl e) \<and>
   (\<forall>doc. build_document ops fs df = Inr doc \<longrightarrow>
      (\<exists>text. Section ''Project Scope'' [Text text, configuration_subsection fs] \<in> set (body doc)))"
proof -
  have "\<exists>text. Section ''Project Scope'' [Text text, configuration_subsection fs] \<in> set (body doc)"
    if "build_document ops fs df = Inr doc" for doc
    using build_document_body [OF that] by (auto simp: scope_section_def)
  then show ?thesis
    using build_document_Inl_fs [of ops fs df e fs']
    by (simp add: configuration_subsection_def beam_figure_def)
qed

theorem diagram_image_optional_witness:
  "\<not> path_exists (fs_with example_frame False) ''beam.png'' \<and>
   configuration_subsection (fs_with example_frame False) =
     Subsection ''Configuration Modeling''
       [Text (''The beam is modeled with ideal pinned-roller boundary conditions. '' @
              ''The geometry and loading path are visualized in the figure below:''),
        Figure ''h!'' [Caption ''Analytical Free Body Diagram.'']] \<and>
   path_exists (fs_with example_frame True) ''beam.png'' \<and>
   configuration_subsection (fs_with example_frame True) =
     Subsection ''Configuration Modeling''
       [Text (''The beam is modeled with ideal pinned-roller boundary conditions. '' @
              ''The geometry and loading path are visualized in the figure below:''),
        Figure ''h!'' [Picture ''beam.png'' (''0.6'' @ bs # ''textwidth''),
                       Caption ''Analytical Free Body Diagram.'']] \<and>
   (\<exists>doc. build_document whole_ops (fs_with example_frame False) example_frame = Inr doc \<and>
      (\<exists>text. Section ''Project Scope'' [Text text, configuration_subsection (fs_with example_frame False)]
         \<in> set (body doc)))"
proof -
  have absent: "\<not> path_exists (fs_with example_frame False) ''beam.png''"
    by (simp add: fs_with_def path_exists_def)
  have present: "path_exists (fs_with example_frame True) ''beam.png''"
    by (simp add: fs_with_def path_exists_def)
  obtain doc where doc: "build_document whole_ops (fs_with example_frame False) example_frame = Inr doc"
    using example_build by blast
  show ?thesis
    using absent present doc
      diagram_image_optional [of "fs_with example_frame False" whole_ops example_frame]
      diagram_image_optional [of "fs_with example_frame True"]
    by blast
qed

subsection \<open>What the build reads\<close>

text \<open>
  Claim C5, as stated: the document is a function of the table and the metadata alone,
  whatever the state of the filesystem. Line 54 tests whether \<^verbatim>\<open>beam.png\<close> exists:
  the same table gives two documents.
\<close>

theorem build_reads_filesystem_counterexample:
  "build_document whole_ops (fs_with example_frame True) example_frame \<noteq>
   build_document whole_ops (fs_with example_frame False) example_frame"
  by code_simp

text \<open>
  Claim C5, amended. The document is a function of the table and of one bit of the
  filesystem, whether \<^verbatim>\<open>beam.png\<close> exists: two filesystems that agree on it give the
  same result for the same table.
\<close>

theorem build_deterministic:
  assumes "path_exists fs ''beam.png'' = path_exists fs' ''beam.png''"
  shows "build_document ops fs df = build_document ops fs' df"
  using assms by (rule build_document_fs_cong)

theorem build_deterministic_witness:
  "path_exists (fs_with example_frame True) ''beam.png'' =
     path_exists ((fs_with frame_no_shear True)(''notes.txt'' \<mapsto> Blob ''draft'')) ''beam.png'' \<and>
   build_document whole_ops (fs_with example_frame True) example_frame =
     build_document whole_ops ((fs_with frame_no_shear True)(''notes.txt'' \<mapsto> Blob ''draft''))
       example_frame"
proof -
  have h: "path_exists (fs_with example_frame True) ''beam.png'' =
     path_exists ((fs_with frame_no_shear True)(''notes.txt'' \<mapsto> Blob ''draft'')) ''beam.png''"
    by (simp add: fs_with_def path_exists_def)
  show ?thesis
    using h build_deterministic [OF h, of whole_ops example_frame] by simp
qed

text \<open>
  Claim C6. Building twice from the same table gives the same markup, byte for byte:
  the build writes nothing, and a whole run of the program in between (load, build,
  render) writes only the \<^verbatim>\<open>.tex\<close> and \<^verbatim>\<open>.pdf\<close> files, which the load and the build
  do not read. \<open>dumps\<close> is any serialiser.
\<close>

theorem rebuild_identical:
  "load_table (snd (generate_beam_report ops dumps compiler fs)) = load_table fs \<and>
   markup dumps (build_document ops (snd (generate_beam_report ops dumps compiler fs)) df) =
     markup dumps (build_document ops fs df)"
proof -
  have "snd (generate_beam_report ops dumps compiler fs) ''beam_data.xlsx'' = fs ''beam_data.xlsx''"
    by (rule generate_beam_report_fs_other) simp_all
  then have "load_table (snd (generate_beam_report ops dumps compiler fs)) = load_table fs"
    by (simp add: load_table_def read_excel_def)
  moreover have "snd (generate_beam_report ops dumps compiler fs) ''beam.png'' = fs ''beam.png''"
    by (rule generate_beam_report_fs_other) simp_all
  then have "build_document ops (snd (generate_beam_report ops dumps compiler fs)) df =
      build_document ops fs df"
    by (intro build_document_fs_cong) (simp add: path_exists_def)
  ultimately show ?thesis by simp
qed


subsection \<open>The cover section\<close>

text \<open>
  Claim C7, as stated: the build takes a metadata struct and shows its four fields in
  the cover section, for every metadata value. The program takes no metadata: the cover
  is the same in every run, so it does not show other values.
\<close>

theorem metadata_counterexample:
  "\<not> cover_shows \<lparr>md_author = ''Jane Doe'', md_id = ''42'',
                   md_subject = ''Cantilever'', md_date = ''2024-01-01''\<rparr>"
  by code_simp

text \<open>
  Claim C7, amended. The cover section shows, verbatim, the fixed author, identifier
  and subject, and the date as the macro \<^verbatim>\<open>\today\<close>; every document that is built
  starts with this cover section.
\<close>

theorem cover_metadata:
  "cover_shows \<lparr>md_author = ''Apoorv Goyal'', md_id = ''23BCG10116'',
                md_subject = ''Simply Supported Beam - 12m Span Analysis'',
                md_date = bs # ''today''\<rparr> \<and>
   (\<forall>doc. build_document ops fs df = Inr doc \<longrightarrow>
      take (length cover_block) (body doc) = cover_block)"
proof -
  have "cover_shows \<lparr>md_author = ''Apoorv Goyal'', md_id = ''23BCG10116'',
                md_subject = ''Simply Supported Beam - 12m Span Analysis'',
                md_date = bs # ''today''\<rparr>"
    by code_simp
  moreover have "take (length cover_block) (body doc) = cover_block"
    if "build_document ops fs df = Inr doc" for doc
    using build_document_body [OF that] by auto
  ultimately show ?thesis by blast
qed

theorem cover_metadata_witness:
  "\<exists>doc. build_document whole_ops (fs_with example_frame True) example_frame = Inr doc \<and>
     take (length cover_block) (body doc) = cover_block"
  using example_build [of whole_ops "fs_with example_frame True"]
    cover_metadata [of whole_ops "fs_with example_frame True" example_frame]
  by blast

subsection \<open>The end-to-end example\<close>

text \<open>
  Claim C8, as stated: the coordinate list of the shear chart is exactly
  \<^verbatim>\<open>(0,0) (6,10) (12,0)\<close>. The program writes a space after each comma and after each
  point.
\<close>

theorem example_shear_coords_counterexample:
  "sfd_coords whole_ops example_frame \<noteq> Inr ''(0,0) (6,10) (12,0)''"
  by code_simp

text \<open>
  Claim C8, amended. For the table with rows (0, 0, 0), (6, 10, -5), (12, 0, 0) the
  document is built, its table holds the rows of indices 0 and 2, with positions
  \<^verbatim>\<open>0.00\<close> and \<^verbatim>\<open>12.00\<close>, and the coordinate text of the shear chart is
  \<^verbatim>\<open>(0, 0) (6, 10) (12, 0) \<close>, put between the fixed head and tail of the plot.
\<close>

theorem example_end_to_end:
  "(\<exists>doc. build_document ops fs example_frame = Inr doc \<and>
      doc_tables doc =
        [[header_row, HLine,
          Row [TextCell ''0.00'', TextCell ''0.0'', TextCell ''0.0''],
          Row [TextCell ''12.00'', TextCell ''0.0'', TextCell ''0.0'']]]) \<and>
   sfd_coords ops example_frame = Inr ''(0, 0) (6, 10) (12, 0) '' \<and>
   generate_sfd_plot ops example_frame = Inr (sfd_head @ ''(0, 0) (6, 10) (12, 0) '' @ plot_tail)"
  using doc_tables_build [OF example_data_rows example_sfd_coords example_bmd_coords, of ops fs]
  by (simp add: example_sfd_coords generate_sfd_plot_def)

subsection \<open>Rendering\<close>

text \<open>
  Claim C9. The render step fails, with an error of kind RenderError, exactly when the
  compiler does not produce the output; then the filesystem is the one before the
  call with the generated \<^verbatim>\<open>.tex\<close> source added, which is left in place. When the
  compiler succeeds, the source is kept as well and the output is written.
\<close>

theorem render_failure:
  "((\<exists>e. fst (render dumps compiler fs doc) = Inl e) \<longleftrightarrow>
      (\<forall>pdf. compiler (fs(''Apoorv_Goyal_Memorandum.tex'' \<mapsto> Blob (dumps doc)))
               ''Apoorv_Goyal_Memorandum.tex'' \<noteq> Compiled pdf)) \<and>
   (\<forall>e. fst (render dumps compiler fs doc) = Inl e \<longrightarrow>
      kind_of e = RenderError \<and>
      snd (render dumps compiler fs doc) =
        fs(''Apoorv_Goyal_Memorandum.tex'' \<mapsto> Blob (dumps doc))) \<and>
   (\<forall>pdf. compiler (fs(''Apoorv_Goyal_Memorandum.tex'' \<mapsto> Blob (dumps doc)))
            ''Apoorv_Goyal_Memorandum.tex'' = Compiled pdf \<longrightarrow>
      render dumps compiler fs doc =
        (Inr (), fs(''Apoorv_Goyal_Memorandum.tex'' \<mapsto> Blob (dumps doc),
                    ''Apoorv_Goyal_Memorandum.pdf'' \<mapsto> Blob pdf)))"
  by (cases "compiler (fs(''Apoorv_Goyal_Memorandum.tex'' \<mapsto> Blob (dumps doc)))
               ''Apoorv_Goyal_Memorandum.tex''")
    (simp_all add: render_def generate_pdf_def Let_def)

theorem render_failure_witness:
  "(\<exists>e. fst (render sample_dumps failing_compiler (fs_with example_frame False)
            \<lparr>documentclass = ''article'', document_options = [], packages = [],
             preamble = [''x''], body = []\<rparr>) = Inl e \<and> kind_of e = RenderError) \<and>
   snd (render sample_dumps failing_compiler (fs_with example_frame False)
          \<lparr>documentclass = ''article'', document_options = [], packages = [],
           preamble = [''x''], body = []\<rparr>) ''Apoorv_Goyal_Memorandum.tex'' = Some (Blob ''x'') \<and>
   render sample_dumps working_compiler (fs_with example_frame False)
     \<lparr>documentclass = ''article'', document_options = [], packages = [],
      preamble = [''x''], body = []\<rparr> =
     (Inr (), (fs_with example_frame False)
        (''Apoorv_Goyal_Memorandum.tex'' \<mapsto> Blob ''x'',
         ''Apoorv_Goyal_Memorandum.pdf'' \<mapsto> Blob ''pdf''))"
proof -
  let ?doc = "\<lparr>documentclass = ''article'', document_options = [], packages = [],
      preamble = [''x''], body = []\<rparr>"
  let ?fs = "fs_with example_frame False :: int option filesystem"
  have fail: "\<forall>pdf. failing_compiler (?fs(''Apoorv_Goyal_Memorandum.tex'' \<mapsto> Blob (sample_dumps ?doc)))
               ''Apoorv_Goyal_Memorandum.tex'' \<noteq> Compiled pdf"
    by (simp add: failing_compiler_def)
  have ok: "working_compiler (?fs(''Apoorv_Goyal_Memorandum.tex'' \<mapsto> Blob (sample_dumps ?doc)))
               ''Apoorv_Goyal_Memorandum.tex'' = Compiled ''pdf''"
    by (simp add: working_compiler_def)
  have d: "sample_dumps ?doc = ''x''"
    by (simp add: sample_dumps_def)
  from fail render_failure [of sample_dumps failing_compiler ?fs ?doc]
  obtain e where e: "fst (render sample_dumps failing_compiler ?fs ?doc) = Inl e"
    by blast
  with render_failure [of sample_dumps failing_compiler ?fs ?doc]
  have "kind_of e = RenderError"
    "snd (render sample_dumps failing_compiler ?fs ?doc) =
       ?fs(''Apoorv_Goyal_Memorandum.tex'' \<mapsto> Blob (sample_dumps ?doc))"
    by blast+
  moreover from ok render_failure [of sample_dumps working_compiler ?fs ?doc]
  have "render sample_dumps working_compiler ?fs ?doc =
     (Inr (), ?fs(''Apoorv_Goyal_Memorandum.tex'' \<mapsto> Blob (sample_dumps ?doc),
                  ''Apoorv_Goyal_Memorandum.pdf'' \<mapsto> Blob ''pdf''))"
    by blast
  ultimately show ?thesis
    using e d by simp
qed

subsection \<open>The columns the document depends on\<close>

text \<open>
  Claim C10, as stated: two tables that agree on the columns \<^verbatim>\<open>X\<close>,
  \<^verbatim>\<open>Shear force\<close> and \<^verbatim>\<open>Bending Moment\<close> give the same document. A fourth column of
  floating-point numbers changes the dtype of every row of \<^verbatim>\<open>iterrows\<close>, and the
  integers of the three columns are then printed as floats in the plots.
\<close>

theorem extra_column_counterexample:
  "map_of example_frame_extra ''X'' = map_of example_frame ''X'' \<and>
   map_of example_frame_extra ''Shear force'' = map_of example_frame ''Shear force'' \<and>
   map_of example_frame_extra ''Bending Moment'' = map_of example_frame ''Bending Moment'' \<and>
   sfd_coords whole_ops example_frame = Inr ''(0, 0) (6, 10) (12, 0) '' \<and>
   sfd_coords whole_ops example_frame_extra = Inr ''(0.0, 0.0) (6.0, 10.0) (12.0, 0.0) '' \<and>
   build_document whole_ops (fs_with example_frame False) example_frame_extra \<noteq>
     build_document whole_ops (fs_with example_frame False) example_frame"
  by code_simp

text \<open>
  Claim C10, amended. Two tables with the same number of rows that agree on the three
  columns and have the same common dtype give the same document: beyond the three
  columns, the other columns count only through the common dtype of the frame.
\<close>

theorem document_depends_on_columns:
  assumes "wf_frame df" and "wf_frame df'" and "nrows df = nrows df'"
    and "common_dtype df = common_dtype df'"
    and "\<forall>c\<in>set required_columns. map_of df c = map_of df' c"
  shows "build_document ops fs df = build_document ops fs df'"
  using assms(1-3)
  by (rule build_document_agree) (simp add: cells_def assms(4,5))

theorem document_depends_on_columns_witness:
  "wf_frame example_frame_extra \<and>
   wf_frame ((''Load'', FloatCol [None, None, Some 1]) # example_frame) \<and>
   nrows example_frame_extra = nrows ((''Load'', FloatCol [None, None, Some 1]) # example_frame) \<and>
   common_dtype example_frame_extra =
     common_dtype ((''Load'', FloatCol [None, None, Some 1]) # example_frame) \<and>
   map_of example_frame_extra ''X'' =
     map_of ((''Load'', FloatCol [None, None, Some 1]) # example_frame) ''X'' \<and>
   map_of example_frame_extra ''Shear force'' =
     map_of ((''Load'', FloatCol [None, None, Some 1]) # example_frame) ''Shear force'' \<and>
   map_of example_frame_extra ''Bending Moment'' =
     map_of ((''Load'', FloatCol [None, None, Some 1]) # example_frame) ''Bending Moment'' \<and>
   build_document whole_ops (fs_with example_frame True) example_frame_extra =
     build_document whole_ops (fs_with example_frame True)
       ((''Load'', FloatCol [None, None, Some 1]) # example_frame)"
proof -
  let ?df = "(''Load'', FloatCol [None, None, Some 1]) # example_frame"
  have h1: "wf_frame example_frame_extra" by code_simp
  have h2: "wf_frame ?df" by code_simp
  have h3: "nrows example_frame_extra = nrows ?df" by code_simp
  have h4: "common_dtype example_frame_extra = common_dtype ?df" by code_simp
  have h5: "\<forall>c\<in>set required_columns. map_of example_frame_extra c = map_of ?df c"
    by code_simp
  have h6: "map_of example_frame_extra ''X'' = map_of ?df ''X'' \<and>
      map_of example_frame_extra ''Shear force'' = map_of ?df ''Shear force'' \<and>
      map_of example_frame_extra ''Bending Moment'' = map_of ?df ''Bending Moment''"
    using h5 by (simp add: required_columns_def)
  show ?thesis
    using h1 h2 h3 h4 h6
      document_depends_on_columns [OF h1 h2 h3 h4 h5, of whole_ops "fs_with example_frame True"]
    by blast
qed

end
